theory Spec2Isabelle
  imports Main "HOL-Library.Multiset"
begin

section \<open>TodoFlow: the dual-mode data-access layer (hook \<open>useTodos\<close> and \<open>todosAPI\<close>)\<close>

text \<open>
  The development embeds the hook \<open>useTodos\<close> (guest storage in \<open>localStorage\<close>,
  authenticated storage behind \<open>todosAPI\<close>), the query engine \<open>filterAndSortTodos\<close>,
  the two statistics computations and the submit handler of the input form.

  Conventions of the embedding:
  \<^item> a JavaScript string is a \<open>string\<close> whose characters are the code units 0 to 255;
    \<open>trim\<close> strips every white space and line terminator of ECMAScript in that range and
    \<open>toLowerCase\<close> maps every capital letter of that range; code units above 255 are outside
    the model;
  \<^item> a timestamp (\<open>created_at\<close>, \<open>updated_at\<close>, \<open>due_date\<close>, a reading of \<open>new Date()\<close>)
    is the instant it denotes, in milliseconds, as an \<open>int\<close>; the ISO strings written by
    \<open>toISOString\<close> have a fixed width, so comparing them as strings is comparing the
    instants; a string that denotes no date is outside the model;
  \<^item> an optional property is an \<open>option\<close>; \<open>None\<close> also stands for the falsy empty string
    where the source only tests truthiness;
  \<^item> everything an operation reads from outside the program (clock readings, the generated
    id, whether the storage quota is exceeded, the replies of the remote service) is a field
    of the record \<open>world\<close> passed to the operation;
  \<^item> a thrown exception is the \<open>Inl\<close> of the result; toasts, console output and the
    \<open>loading\<close> flag are presentation and are not modelled.
\<close>

subsection \<open>Task record model (\<open>types/todo.ts\<close>)\<close>

datatype PriorityType = Low | Medium | High

datatype FilterType = All_tasks | Active | Completed | Overdue | HighPriority

datatype SortType = Created_at | Updated_at | Due_date | Priority | Text

datatype SortOrder = Asc | Desc

record Todo =
  todo_id :: string
  todo_text :: string
  description :: "string option"
  completed :: bool
  priority :: PriorityType
  category :: "string option"
  category_name :: "string option"
  category_color :: "string option"
  due_date :: "int option"
  reminder_date :: "int option"
  tags :: "string list"
  position :: int
  created_at :: int
  updated_at :: int

text \<open>
  \<open>Partial<Todo>\<close>: every property may be missing (\<open>None\<close>). For an optional property of
  \<open>Todo\<close> the patch can also carry an explicit \<open>undefined\<close> (\<open>Some None\<close>), which the
  object spread copies over the old value.
\<close>

record TodoPatch =
  p_id :: "string option"
  p_text :: "string option"
  p_description :: "string option option"
  p_completed :: "bool option"
  p_priority :: "PriorityType option"
  p_category :: "string option option"
  p_category_name :: "string option option"
  p_category_color :: "string option option"
  p_due_date :: "int option option"
  p_reminder_date :: "int option option"
  p_tags :: "string list option"
  p_position :: "int option"
  p_created_at :: "int option"
  p_updated_at :: "int option"

definition no_updates :: TodoPatch where
  "no_updates = \<lparr>p_id = None, p_text = None, p_description = None, p_completed = None,
     p_priority = None, p_category = None, p_category_name = None, p_category_color = None,
     p_due_date = None, p_reminder_date = None, p_tags = None, p_position = None,
     p_created_at = None, p_updated_at = None\<rparr>"

definition or_else :: "'a option \<Rightarrow> 'a \<Rightarrow> 'a" where
  "or_else v d = (case v of None \<Rightarrow> d | Some x \<Rightarrow> x)"

text \<open>The object spread \<open>{...t, ...updates}\<close>.\<close>

definition spread :: "Todo \<Rightarrow> TodoPatch \<Rightarrow> Todo" where
  "spread t u =
     \<lparr>todo_id = or_else (p_id u) (todo_id t),
      todo_text = or_else (p_text u) (todo_text t),
      description = or_else (p_description u) (description t),
      completed = or_else (p_completed u) (completed t),
      priority = or_else (p_priority u) (priority t),
      category = or_else (p_category u) (category t),
      category_name = or_else (p_category_name u) (category_name t),
      category_color = or_else (p_category_color u) (category_color t),
      due_date = or_else (p_due_date u) (due_date t),
      reminder_date = or_else (p_reminder_date u) (reminder_date t),
      tags = or_else (p_tags u) (tags t),
      position = or_else (p_position u) (position t),
      created_at = or_else (p_created_at u) (created_at t),
      updated_at = or_else (p_updated_at u) (updated_at t)\<rparr>"

subsection \<open>Strings\<close>

text \<open>
  What \<open>String.prototype.trim\<close> strips: tab, line feed, vertical tab, form feed, carriage
  return, space and the no-break space U+00A0 (the other white space of ECMAScript lies above
  U+00FF).
\<close>

definition isWhitespace :: "char \<Rightarrow> bool" where
  "isWhitespace c \<longleftrightarrow>
     c \<in> {CHR '' '', CHR 0x09, CHR 0x0A, CHR 0x0B, CHR 0x0C, CHR 0x0D, CHR 0xA0}"

definition trim :: "string \<Rightarrow> string" where
  "trim s = rev (dropWhile isWhitespace (rev (dropWhile isWhitespace s)))"

text \<open>
  \<open>toLowerCase\<close> on one code unit: the letters A to Z and the capitals U+00C0 to U+00DE, without
  the multiplication sign U+00D7, move up by 32; every other code unit up to 255 stays.
\<close>

definition lowerChar :: "char \<Rightarrow> char" where
  "lowerChar c =
     (let n = (of_char c :: nat)
      in if (65 \<le> n \<and> n \<le> 90) \<or> (192 \<le> n \<and> n \<le> 222 \<and> n \<noteq> 215) then char_of (n + 32)
         else c)"

definition toLowerCase :: "string \<Rightarrow> string" where
  "toLowerCase s = map lowerChar s"

fun startsWith :: "string \<Rightarrow> string \<Rightarrow> bool" where
  "startsWith s [] = True"
| "startsWith [] (p # ps) = False"
| "startsWith (c # cs) (p # ps) = (c = p \<and> startsWith cs ps)"

fun str_includes :: "string \<Rightarrow> string \<Rightarrow> bool" where
  "str_includes [] sub = (sub = [])"
| "str_includes (c # cs) sub = (startsWith (c # cs) sub \<or> str_includes cs sub)"

text \<open>The relational operators on strings compare code units lexicographically.\<close>

fun str_less :: "string \<Rightarrow> string \<Rightarrow> bool" where
  "str_less [] [] = False"
| "str_less [] (y # ys) = True"
| "str_less (x # xs) [] = False"
| "str_less (x # xs) (y # ys) =
     ((of_char x :: nat) < of_char y \<or> (x = y \<and> str_less xs ys))"

subsection \<open>Query engine (\<open>filterAndSortTodos\<close>)\<close>

record QuerySpec =
  searchQuery :: string
  status_filter :: FilterType
  sortBy :: SortType
  sortOrder :: SortOrder

definition matchesSearch :: "string \<Rightarrow> Todo \<Rightarrow> bool" where
  "matchesSearch sq todo \<longleftrightarrow>
     str_includes (toLowerCase (todo_text todo)) (toLowerCase sq) \<or>
     (case description todo of
        None \<Rightarrow> False
      | Some d \<Rightarrow> d \<noteq> [] \<and> str_includes (toLowerCase d) (toLowerCase sq))"

definition isOverdue :: "int \<Rightarrow> Todo \<Rightarrow> bool" where
  "isOverdue now t \<longleftrightarrow>
     (case due_date t of None \<Rightarrow> False | Some d \<Rightarrow> d < now \<and> \<not> completed t)"

definition matchesStatus :: "FilterType \<Rightarrow> int \<Rightarrow> Todo \<Rightarrow> bool" where
  "matchesStatus f now t =
     (if f = Active then \<not> completed t
      else if f = Completed then completed t
      else if f = HighPriority then priority t = High \<and> \<not> completed t
      else if f = Overdue then isOverdue now t
      else True)"

definition priorityOrder :: "PriorityType \<Rightarrow> int" where
  "priorityOrder p = (case p of High \<Rightarrow> 3 | Medium \<Rightarrow> 2 | Low \<Rightarrow> 1)"

datatype jsval = Num int | Str string

fun js_less :: "jsval \<Rightarrow> jsval \<Rightarrow> bool" where
  "js_less (Num a) (Num b) = (a < b)"
| "js_less (Str a) (Str b) = str_less a b"
| "js_less (Num a) (Str b) = False"
| "js_less (Str a) (Num b) = False"

text \<open>
  The value the comparator compares: the ordinal for \<open>priority\<close>, the lower-cased title for
  \<open>text\<close>, the time in milliseconds for a key whose name contains \<open>date\<close> (\<open>due_date\<close>, where
  a missing date is the epoch, and \<open>updated_at\<close>), and the property itself, an ISO string, for
  \<open>created_at\<close>. Both of the last two are the instant in the model.
\<close>

definition sortValue :: "SortType \<Rightarrow> Todo \<Rightarrow> jsval" where
  "sortValue sb a =
     (case sb of
        Priority \<Rightarrow> Num (priorityOrder (priority a))
      | Text \<Rightarrow> Str (toLowerCase (todo_text a))
      | Due_date \<Rightarrow> Num (or_else (due_date a) 0)
      | Created_at \<Rightarrow> Num (created_at a)
      | Updated_at \<Rightarrow> Num (updated_at a))"

definition compareTodos :: "SortType \<Rightarrow> SortOrder \<Rightarrow> Todo \<Rightarrow> Todo \<Rightarrow> int" where
  "compareTodos sb so a b =
     (let aValue = sortValue sb a; bValue = sortValue sb b
      in if so = Asc then (if js_less bValue aValue then 1 else - 1)
         else (if js_less aValue bValue then 1 else - 1))"

text \<open>
  \<open>Array.prototype.sort\<close> with a comparator, as a stable insertion sort. The comparator above
  never returns 0, so it is not a consistent comparison function in the sense of ECMAScript,
  which then leaves the order to the engine; the model fixes one comparison sort. On keys
  that are pairwise different every comparison sort gives the same order, and which tasks are
  in the result never depends on the algorithm.
\<close>

fun insertBy :: "('a \<Rightarrow> 'a \<Rightarrow> int) \<Rightarrow> 'a \<Rightarrow> 'a list \<Rightarrow> 'a list" where
  "insertBy cmp x [] = [x]"
| "insertBy cmp x (y # ys) = (if cmp x y \<le> 0 then x # y # ys else y # insertBy cmp x ys)"

fun arraySort :: "('a \<Rightarrow> 'a \<Rightarrow> int) \<Rightarrow> 'a list \<Rightarrow> 'a list" where
  "arraySort cmp [] = []"
| "arraySort cmp (x # xs) = insertBy cmp x (arraySort cmp xs)"

definition filterAndSortTodos :: "QuerySpec \<Rightarrow> int \<Rightarrow> Todo list \<Rightarrow> Todo list" where
  "filterAndSortTodos q now todoList =
     (let filtered = todoList;
          filtered = (if searchQuery q \<noteq> [] then filter (matchesSearch (searchQuery q)) filtered
                      else filtered);
          filtered = filter (matchesStatus (status_filter q) now) filtered
      in arraySort (compareTodos (sortBy q) (sortOrder q)) filtered)"

subsection \<open>Statistics (\<open>calculateGuestStats\<close>, \<open>todosAPI.getStats\<close>)\<close>

text \<open>
  A statistics object as the program builds it. The interface \<open>TodoStats\<close> declares
  \<open>total\<close>, \<open>active\<close>, \<open>completed\<close>, \<open>high_priority\<close> and \<open>overdue\<close>; the record has one
  field for every property that either producer writes, and \<open>None\<close> for a property the
  object does not have (reading it gives \<open>undefined\<close>).
\<close>

record TodoStats =
  st_total :: nat
  st_active :: "nat option"
  st_completed :: nat
  st_high_priority :: "nat option"
  st_overdue :: nat
  st_pending :: "nat option"

record CategoryStats =
  cs_name :: string
  cs_total :: nat
  cs_completed :: nat
  cs_pending :: nat

definition calculateGuestStats :: "int \<Rightarrow> Todo list \<Rightarrow> TodoStats" where
  "calculateGuestStats now todoList =
     \<lparr>st_total = length todoList,
      st_active = Some (length (filter (\<lambda>t. \<not> completed t) todoList)),
      st_completed = length (filter (\<lambda>t. completed t) todoList),
      st_high_priority = Some (length (filter (\<lambda>t. priority t = High \<and> \<not> completed t) todoList)),
      st_overdue = length (filter (isOverdue now) todoList),
      st_pending = None\<rparr>"

text \<open>The \<open>overview\<close> object of \<open>todosAPI.getStats\<close>, computed from the fetched rows.\<close>

definition getStats_overview :: "int \<Rightarrow> Todo list \<Rightarrow> TodoStats" where
  "getStats_overview now rows =
     (let total = length rows;
          completed_n = length (filter (\<lambda>todo. completed todo) rows);
          pending = total - completed_n;
          overdue = length (filter (\<lambda>todo. \<not> completed todo \<and>
                       (case due_date todo of None \<Rightarrow> False | Some d \<Rightarrow> d < now)) rows)
      in \<lparr>st_total = total, st_active = None, st_completed = completed_n,
          st_high_priority = None, st_overdue = overdue, st_pending = Some pending\<rparr>)"

definition categoryKey :: "Todo \<Rightarrow> string" where
  "categoryKey todo =
     (case category todo of None \<Rightarrow> ''Uncategorized''
      | Some c \<Rightarrow> if c = [] then ''Uncategorized'' else c)"

text \<open>The \<open>Map\<close> of \<open>getStats\<close> keeps its keys in the order of their first insertion.\<close>

fun categoryMap_set :: "string \<Rightarrow> nat \<times> nat \<Rightarrow> (string \<times> nat \<times> nat) list \<Rightarrow> (string \<times> nat \<times> nat) list" where
  "categoryMap_set k v [] = [(k, v)]"
| "categoryMap_set k v ((k', v') # m) =
     (if k' = k then (k, v) # m else (k', v') # categoryMap_set k v m)"

definition categoryMap_step :: "(string \<times> nat \<times> nat) list \<Rightarrow> Todo \<Rightarrow> (string \<times> nat \<times> nat) list" where
  "categoryMap_step m todo =
     (let k = categoryKey todo;
          current = or_else (map_of m k) (0, 0);
          current = (fst current + 1, if completed todo then snd current + 1 else snd current)
      in categoryMap_set k current m)"

definition getStats_categories :: "Todo list \<Rightarrow> CategoryStats list" where
  "getStats_categories rows =
     map (\<lambda>(name, tot, comp). \<lparr>cs_name = name, cs_total = tot, cs_completed = comp,
                                cs_pending = tot - comp\<rparr>)
         (foldl categoryMap_step [] rows)"

subsection \<open>The outside world and the state of the hook\<close>

datatype error = ValidationError | NotFound | StorageError | RemoteError | SyntaxError

text \<open>
  The slot \<open>todoflow_guest_todos\<close> of \<open>localStorage\<close>: missing (or the empty string),
  holding text that \<open>JSON.parse\<close> rejects, or holding a serialised collection.
\<close>

datatype slot = Absent | Corrupt | Stored "Todo list"

definition loadAll :: "slot \<Rightarrow> error + Todo list" where
  "loadAll sl = (case sl of Absent \<Rightarrow> Inr [] | Corrupt \<Rightarrow> Inl SyntaxError | Stored xs \<Rightarrow> Inr xs)"

text \<open>The clauses \<open>todosAPI\<close> puts on a \<open>select\<close> of the table \<open>todos\<close>.\<close>

datatype clause =
    EqCategory string
  | EqPriority PriorityType
  | EqCompleted bool
  | IlikeTitle string
  | OrderBy SortType bool

record AddOptions =
  o_description :: "string option"
  o_category :: "string option"
  o_dueDate :: "int option"
  o_tags :: "string list option"

record CreatePayload =
  c_text :: string
  c_priority :: PriorityType
  c_options :: "AddOptions option"

record world =
  new_id :: string
  now_created :: int
  now_updated :: int
  now_stamp :: int
  now_stamp_at :: "nat \<Rightarrow> int"
  now_fetch :: int
  now_stats :: int
  quota_exceeded :: bool
  supabase_select :: "clause list \<Rightarrow> error + Todo list"
  supabase_insert :: "CreatePayload \<Rightarrow> error + Todo"
  supabase_update :: "string \<Rightarrow> TodoPatch \<Rightarrow> error + Todo"
  supabase_delete :: "string \<Rightarrow> error + unit"
  supabase_delete_in :: "string list \<Rightarrow> error + unit"
  supabase_update_in :: "string list \<Rightarrow> TodoPatch \<Rightarrow> error + unit"

record state =
  isGuest :: bool
  guest_todos :: slot
  todos :: "Todo list"
  stats :: TodoStats
  categoryStats :: "CategoryStats list"
  query :: QuerySpec
  selectedTodos :: "string list"

text \<open>\<open>localStorage.setItem\<close> of the serialised collection; it throws when the quota is exceeded.\<close>

definition setItem :: "world \<Rightarrow> Todo list \<Rightarrow> state \<Rightarrow> error + state" where
  "setItem w xs s = (if quota_exceeded w then Inl StorageError else Inr (s\<lparr>guest_todos := Stored xs\<rparr>))"

subsection \<open>\<open>todosAPI\<close> (\<open>services/api.ts\<close>)\<close>

record QueryParams =
  qp_category :: "string option"
  qp_priority :: "PriorityType option"
  qp_completed :: "bool option"
  qp_search :: "string option"
  qp_sortBy :: "SortType option"
  qp_sortOrder :: "SortOrder option"

definition getAll_clauses :: "QueryParams \<Rightarrow> clause list" where
  "getAll_clauses params =
     (case qp_category params of None \<Rightarrow> [] | Some c \<Rightarrow> if c = [] then [] else [EqCategory c]) @
     (case qp_priority params of None \<Rightarrow> [] | Some p \<Rightarrow> [EqPriority p]) @
     (case qp_completed params of None \<Rightarrow> [] | Some b \<Rightarrow> [EqCompleted b]) @
     (case qp_search params of None \<Rightarrow> [] | Some sq \<Rightarrow> if sq = [] then [] else [IlikeTitle sq]) @
     (case qp_sortBy params of None \<Rightarrow> []
      | Some sb \<Rightarrow> [OrderBy sb (qp_sortOrder params \<noteq> Some Desc)])"

definition todosAPI_getAll :: "world \<Rightarrow> QueryParams \<Rightarrow> error + Todo list" where
  "todosAPI_getAll w params = supabase_select w (getAll_clauses params)"

definition todosAPI_getStats :: "world \<Rightarrow> error + (TodoStats \<times> CategoryStats list)" where
  "todosAPI_getStats w =
     (case supabase_select w [] of
        Inl e \<Rightarrow> Inl e
      | Inr rows \<Rightarrow> Inr (getStats_overview (now_stats w) rows, getStats_categories rows))"

definition todosAPI_bulkOperation :: "world \<Rightarrow> string \<Rightarrow> string list \<Rightarrow> TodoPatch option \<Rightarrow> error + unit" where
  "todosAPI_bulkOperation w action todoIds updates =
     (if action = ''delete'' then supabase_delete_in w todoIds
      else (case updates of
              Some u \<Rightarrow> if action = ''update'' then supabase_update_in w todoIds u else Inr ()
            | None \<Rightarrow> Inr ()))"

subsection \<open>The hook \<open>useTodos\<close>\<close>

definition fetch_params :: "QuerySpec \<Rightarrow> QueryParams" where
  "fetch_params q =
     (let params = \<lparr>qp_category = None, qp_priority = None, qp_completed = None, qp_search = None,
                     qp_sortBy = Some (sortBy q), qp_sortOrder = Some (sortOrder q)\<rparr>;
          params = (if searchQuery q \<noteq> [] then params\<lparr>qp_search := Some (searchQuery q)\<rparr> else params);
          params = (if status_filter q = Active then params\<lparr>qp_completed := Some False\<rparr> else params);
          params = (if status_filter q = Completed then params\<lparr>qp_completed := Some True\<rparr> else params);
          params = (if status_filter q = Overdue then params\<lparr>qp_completed := Some False\<rparr> else params);
          params = (if status_filter q = HighPriority
                    then params\<lparr>qp_priority := Some High, qp_completed := Some False\<rparr> else params)
      in params)"

definition fetchTodos :: "world \<Rightarrow> state \<Rightarrow> state" where
  "fetchTodos w s =
     (if isGuest s then
        (case loadAll (guest_todos s) of
           Inl e \<Rightarrow> s\<lparr>todos := []\<rparr>
         | Inr allTodos \<Rightarrow> s\<lparr>todos := filterAndSortTodos (query s) (now_fetch w) allTodos\<rparr>)
      else
        (case todosAPI_getAll w (fetch_params (query s)) of
           Inl e \<Rightarrow> s
         | Inr data \<Rightarrow> s\<lparr>todos := data\<rparr>))"

definition fetchStats :: "world \<Rightarrow> state \<Rightarrow> state" where
  "fetchStats w s =
     (if isGuest s then
        (case loadAll (guest_todos s) of
           Inl e \<Rightarrow> s
         | Inr allTodos \<Rightarrow> s\<lparr>stats := calculateGuestStats (now_stats w) allTodos, categoryStats := []\<rparr>)
      else
        (case todosAPI_getStats w of
           Inl e \<Rightarrow> s
         | Inr data \<Rightarrow> s\<lparr>stats := fst data, categoryStats := snd data\<rparr>))"

definition addTodo :: "world \<Rightarrow> string \<Rightarrow> PriorityType \<Rightarrow> AddOptions option \<Rightarrow> state \<Rightarrow> (error + Todo) \<times> state" where
  "addTodo w text_in prio options s =
     (if isGuest s then
        (let newTodo = \<lparr>todo_id = new_id w, todo_text = trim text_in,
                         description = Option.bind options o_description,
                         completed = False, priority = prio,
                         category = Option.bind options o_category,
                         category_name = None, category_color = None,
                         due_date = Option.bind options o_dueDate, reminder_date = None,
                         tags = or_else (Option.bind options o_tags) [],
                         position = 0, created_at = now_created w, updated_at = now_updated w\<rparr>
         in case loadAll (guest_todos s) of
              Inl e \<Rightarrow> (Inl e, s)
            | Inr allTodos \<Rightarrow>
                (case setItem w (newTodo # allTodos) s of
                   Inl e \<Rightarrow> (Inl e, s)
                 | Inr s1 \<Rightarrow> (Inr newTodo, fetchStats w (fetchTodos w s1))))
      else
        (case supabase_insert w \<lparr>c_text = trim text_in, c_priority = prio, c_options = options\<rparr> of
           Inl e \<Rightarrow> (Inl e, s)
         | Inr newTodo \<Rightarrow> (Inr newTodo, fetchStats w (s\<lparr>todos := newTodo # todos s\<rparr>))))"

fun findIndex :: "('a \<Rightarrow> bool) \<Rightarrow> 'a list \<Rightarrow> nat option" where
  "findIndex P [] = None"
| "findIndex P (x # xs) = (if P x then Some 0 else map_option Suc (findIndex P xs))"

text \<open>The code after the guest block of \<open>updateTodo\<close>: the update through the API.\<close>

definition updateTodo_api :: "world \<Rightarrow> string \<Rightarrow> TodoPatch \<Rightarrow> state \<Rightarrow> (error + Todo) \<times> state" where
  "updateTodo_api w i updates s =
     (case supabase_update w i updates of
        Inl e \<Rightarrow> (Inl e, s)
      | Inr updatedTodo \<Rightarrow>
          (Inr updatedTodo,
           fetchStats w (s\<lparr>todos := map (\<lambda>todo. if todo_id todo = i then updatedTodo else todo) (todos s)\<rparr>)))"

text \<open>
  In the guest block the \<open>return\<close> is inside \<open>if (todoIndex !== -1)\<close> and nothing follows the
  \<open>try\<close>: when the id is not found, control leaves the block and runs the API code.
\<close>

definition updateTodo :: "world \<Rightarrow> string \<Rightarrow> TodoPatch \<Rightarrow> state \<Rightarrow> (error + Todo) \<times> state" where
  "updateTodo w i updates s =
     (if isGuest s then
        (case loadAll (guest_todos s) of
           Inl e \<Rightarrow> (Inl e, s)
         | Inr allTodos \<Rightarrow>
             (case findIndex (\<lambda>t. todo_id t = i) allTodos of
                Some todoIndex \<Rightarrow>
                  (let merged = (spread (allTodos ! todoIndex) updates)\<lparr>updated_at := now_stamp w\<rparr>;
                       allTodos = allTodos[todoIndex := merged]
                   in case setItem w allTodos s of
                        Inl e \<Rightarrow> (Inl e, s)
                      | Inr s1 \<Rightarrow> (Inr merged, fetchStats w (fetchTodos w s1)))
              | None \<Rightarrow> updateTodo_api w i updates s))
      else updateTodo_api w i updates s)"

definition deleteTodo :: "world \<Rightarrow> string \<Rightarrow> state \<Rightarrow> (error + unit) \<times> state" where
  "deleteTodo w i s =
     (if isGuest s then
        (case loadAll (guest_todos s) of
           Inl e \<Rightarrow> (Inl e, s)
         | Inr allTodos \<Rightarrow>
             (case setItem w (filter (\<lambda>t. todo_id t \<noteq> i) allTodos) s of
                Inl e \<Rightarrow> (Inl e, s)
              | Inr s1 \<Rightarrow>
                  (Inr (), fetchStats w (fetchTodos w
                     (s1\<lparr>selectedTodos := filter (\<lambda>todoId. todoId \<noteq> i) (selectedTodos s1)\<rparr>)))))
      else
        (case supabase_delete w i of
           Inl e \<Rightarrow> (Inl e, s)
         | Inr u \<Rightarrow>
             (Inr (), fetchStats w
                (s\<lparr>todos := filter (\<lambda>todo. todo_id todo \<noteq> i) (todos s),
                   selectedTodos := filter (\<lambda>todoId. todoId \<noteq> i) (selectedTodos s)\<rparr>))))"

definition toggleTodo :: "world \<Rightarrow> string \<Rightarrow> state \<Rightarrow> (error + unit) \<times> state" where
  "toggleTodo w i s =
     (case find (\<lambda>t. todo_id t = i) (todos s) of
        Some todo \<Rightarrow>
          (case updateTodo w i (no_updates\<lparr>p_completed := Some (\<not> completed todo)\<rparr>) s of
             (Inl e, s') \<Rightarrow> (Inl e, s')
           | (Inr t, s') \<Rightarrow> (Inr (), s'))
      | None \<Rightarrow> (Inr (), s))"

text \<open>
  The \<open>forEach\<close> of the bulk actions takes a clock reading for every matched element; the
  reading at the element with index \<open>k\<close> is \<open>now_stamp_at w k\<close>.
\<close>

definition bulkMark :: "world \<Rightarrow> bool \<Rightarrow> string list \<Rightarrow> Todo list \<Rightarrow> Todo list" where
  "bulkMark w flag todoIds allTodos =
     map (\<lambda>(k, t). if todo_id t \<in> set todoIds
                    then t\<lparr>completed := flag, updated_at := now_stamp_at w k\<rparr> else t)
         (enumerate 0 allTodos)"

definition bulkOperation :: "world \<Rightarrow> string \<Rightarrow> string list \<Rightarrow> TodoPatch option \<Rightarrow> state \<Rightarrow> (error + unit) \<times> state" where
  "bulkOperation w action todoIds updates s =
     (if isGuest s then
        (case loadAll (guest_todos s) of
           Inl e \<Rightarrow> (Inl e, s)
         | Inr allTodos \<Rightarrow>
             (case (if action = ''delete''
                    then setItem w (filter (\<lambda>t. todo_id t \<notin> set todoIds) allTodos) s
                    else if action = ''complete'' then setItem w (bulkMark w True todoIds allTodos) s
                    else if action = ''uncomplete'' then setItem w (bulkMark w False todoIds allTodos) s
                    else Inr s) of
                Inl e \<Rightarrow> (Inl e, s)
              | Inr s1 \<Rightarrow> (Inr (), (fetchStats w (fetchTodos w s1))\<lparr>selectedTodos := []\<rparr>)))
      else
        (case todosAPI_bulkOperation w action todoIds updates of
           Inl e \<Rightarrow> (Inl e, s)
         | Inr u \<Rightarrow> (Inr (), (fetchStats w (fetchTodos w s))\<lparr>selectedTodos := []\<rparr>)))"

definition clearCompleted :: "world \<Rightarrow> state \<Rightarrow> (error + unit) \<times> state" where
  "clearCompleted w s =
     (let completedIds = map todo_id (filter (\<lambda>t. completed t) (todos s))
      in if length completedIds > 0 then bulkOperation w ''delete'' completedIds None s
         else (Inr (), s))"

definition toggleSelectTodo :: "string \<Rightarrow> state \<Rightarrow> state" where
  "toggleSelectTodo i s =
     s\<lparr>selectedTodos := (if i \<in> set (selectedTodos s)
                          then filter (\<lambda>todoId. todoId \<noteq> i) (selectedTodos s)
                          else selectedTodos s @ [i])\<rparr>"

definition selectAllTodos :: "state \<Rightarrow> state" where
  "selectAllTodos s = s\<lparr>selectedTodos := map todo_id (todos s)\<rparr>"

definition clearSelection :: "state \<Rightarrow> state" where
  "clearSelection s = s\<lparr>selectedTodos := []\<rparr>"

subsection \<open>The input form (\<open>handleSubmit\<close> of the component that calls \<open>addTodo\<close>)\<close>

text \<open>
  The fields of the form that reach the guest branch of \<open>addTodo\<close>; the reminder date and the
  recurrence rule of the form are passed in the options too, and \<open>addTodo\<close> does not read them.
\<close>

record form =
  f_text :: string
  f_priority :: PriorityType
  f_description :: string
  f_dueDate :: "int option"
  f_tags :: "string list"
  f_isSubmitting :: bool

definition handleSubmit :: "world \<Rightarrow> form \<Rightarrow> state \<Rightarrow> form \<times> state" where
  "handleSubmit w f s =
     (if trim (f_text f) \<noteq> [] \<and> \<not> f_isSubmitting f then
        (case addTodo w (f_text f) (f_priority f)
                (Some \<lparr>o_description = (if trim (f_description f) = [] then None
                                         else Some (trim (f_description f))),
                       o_category = None,
                       o_dueDate = f_dueDate f,
                       o_tags = (if length (f_tags f) > 0 then Some (f_tags f) else None)\<rparr>) s of
           (Inl e, s') \<Rightarrow> (f\<lparr>f_isSubmitting := False\<rparr>, s')
         | (Inr t, s') \<Rightarrow>
             (\<lparr>f_text = [], f_priority = Medium, f_description = [], f_dueDate = None,
               f_tags = [], f_isSubmitting = False\<rparr>, s'))
      else (f, s))"

subsection \<open>The remote query service\<close>

text \<open>
  Modelled from the spec: the query engine of the hosted service is not part of the
  repository. Section 4.3 documents it as applying equality filters (category, priority,
  completion), a case-insensitive substring filter on the title, and one sort key with a
  direction. \<open>service_select\<close> gives the rows the documented service selects from a table for
  a list of clauses; the clause \<open>OrderBy\<close> only arranges the selected rows and their order is
  left to the service.
\<close>

fun clause_holds :: "clause \<Rightarrow> Todo \<Rightarrow> bool" where
  "clause_holds (EqCategory c) t = (category t = Some c)"
| "clause_holds (EqPriority p) t = (priority t = p)"
| "clause_holds (EqCompleted b) t = (completed t = b)"
| "clause_holds (IlikeTitle sq) t = str_includes (toLowerCase (todo_text t)) (toLowerCase sq)"
| "clause_holds (OrderBy sb asc) t = True"

definition service_select :: "clause list \<Rightarrow> Todo list \<Rightarrow> Todo list" where
  "service_select cs table = filter (\<lambda>t. list_all (\<lambda>c. clause_holds c t) cs) table"

subsection \<open>Concrete sessions\<close>

text \<open>The values of the hook's \<open>useState\<close> calls, and a task with every optional property unset.\<close>

definition initial_query :: QuerySpec where
  "initial_query = \<lparr>searchQuery = [], status_filter = All_tasks, sortBy = Created_at, sortOrder = Desc\<rparr>"

definition initial_stats :: TodoStats where
  "initial_stats = \<lparr>st_total = 0, st_active = Some 0, st_completed = 0, st_high_priority = Some 0,
                     st_overdue = 0, st_pending = None\<rparr>"

definition initial_state :: "bool \<Rightarrow> state" where
  "initial_state guest =
     \<lparr>isGuest = guest, guest_todos = Absent, todos = [], stats = initial_stats,
      categoryStats = [], query = initial_query, selectedTodos = []\<rparr>"

definition plain_task :: "string \<Rightarrow> Todo" where
  "plain_task i =
     \<lparr>todo_id = i, todo_text = ''task'', description = None, completed = False,
      priority = Medium, category = None, category_name = None, category_color = None,
      due_date = None, reminder_date = None, tags = [], position = 0,
      created_at = 0, updated_at = 0\<rparr>"

text \<open>A world at time \<open>n\<close> in which the remote service cannot be reached.\<close>

definition offline_world :: "int \<Rightarrow> world" where
  "offline_world n =
     \<lparr>new_id = ''guest_1_abc'', now_created = n, now_updated = n, now_stamp = n,
      now_stamp_at = (\<lambda>k. n), now_fetch = n, now_stats = n, quota_exceeded = False,
      supabase_select = (\<lambda>cs. Inl RemoteError),
      supabase_insert = (\<lambda>p. Inl RemoteError),
      supabase_update = (\<lambda>i u. Inl RemoteError),
      supabase_delete = (\<lambda>i. Inl RemoteError),
      supabase_delete_in = (\<lambda>is. Inl RemoteError),
      supabase_update_in = (\<lambda>is u. Inl RemoteError)\<rparr>"

text \<open>A world at time \<open>n\<close> in which the service holds \<open>table\<close> and answers as documented.\<close>

definition online_world :: "int \<Rightarrow> Todo list \<Rightarrow> world" where
  "online_world n table =
     (offline_world n)
       \<lparr>supabase_select := (\<lambda>cs. Inr (service_select cs table)),
        supabase_update := (\<lambda>i u. case find (\<lambda>t. todo_id t = i) table of
                                     None \<Rightarrow> Inl NotFound
                                   | Some t \<Rightarrow> Inr ((spread t u)\<lparr>updated_at := n\<rparr>)),
        supabase_delete := (\<lambda>i. Inr ()),
        supabase_delete_in := (\<lambda>is. Inr ())\<rparr>"

section \<open>Properties of the query engine\<close>

subsection \<open>Sorting permutes\<close>

lemma mset_insertBy: "mset (insertBy cmp x xs) = add_mset x (mset xs)"
  by (induction xs) auto

lemma mset_arraySort: "mset (arraySort cmp xs) = mset xs"
  by (induction xs) (auto simp: mset_insertBy)

lemma set_arraySort: "set (arraySort cmp xs) = set xs"
  using mset_arraySort [of cmp xs] by (metis set_mset_mset)

lemma length_arraySort: "length (arraySort cmp xs) = length xs"
  using mset_arraySort [of cmp xs] by (metis size_mset)

lemma mset_filterAndSortTodos:
  "mset (filterAndSortTodos q now xs) =
     filter_mset (\<lambda>t. (searchQuery q = [] \<or> matchesSearch (searchQuery q) t) \<and>
                        matchesStatus (status_filter q) now t) (mset xs)"
  by (auto simp: filterAndSortTodos_def Let_def mset_arraySort filter_filter_mset intro!: filter_mset_cong)

lemma set_filterAndSortTodos:
  "set (filterAndSortTodos q now xs) =
     {t \<in> set xs. (searchQuery q = [] \<or> matchesSearch (searchQuery q) t) \<and>
                   matchesStatus (status_filter q) now t}"
  using mset_filterAndSortTodos [of q now xs, THEN arg_cong, of set_mset] by auto

text \<open>
  Claim C10. For every collection and every query spec, every task of the view produced by
  the guest-mode query engine is an element of the input collection, the view is a
  sub-multiset of the collection, and no task id occurs in the view more often than in the
  collection: filtering and sorting never invent or duplicate a task.
\<close>

theorem filterAndSortTodos_sub_permutation:
  "set (filterAndSortTodos q now todoList) \<subseteq> set todoList \<and>
   mset (filterAndSortTodos q now todoList) \<subseteq># mset todoList \<and>
   count (mset (map todo_id (filterAndSortTodos q now todoList))) i
     \<le> count (mset (map todo_id todoList)) i"
proof -
  have sub: "mset (filterAndSortTodos q now todoList) \<subseteq># mset todoList"
    by (simp add: mset_filterAndSortTodos)
  have "image_mset todo_id (mset (filterAndSortTodos q now todoList))
          \<subseteq># image_mset todo_id (mset todoList)"
    using sub by (rule image_mset_subseteq_mono)
  then have "count (mset (map todo_id (filterAndSortTodos q now todoList))) i
     \<le> count (mset (map todo_id todoList)) i"
    by (simp add: mset_subset_eq_count)
  moreover have "set (filterAndSortTodos q now todoList) \<subseteq> set todoList"
    using sub by (metis set_mset_mono set_mset_mset)
  ultimately show ?thesis using sub by simp
qed

theorem filterAndSortTodos_sub_permutation_witness:
  "set (filterAndSortTodos initial_query 0 [plain_task ''a'']) \<subseteq> set [plain_task ''a''] \<and>
   mset (filterAndSortTodos initial_query 0 [plain_task ''a'']) \<subseteq># mset [plain_task ''a''] \<and>
   count (mset (map todo_id (filterAndSortTodos initial_query 0 [plain_task ''a'']))) ''a'' \<le> 1"
  using filterAndSortTodos_sub_permutation [of initial_query 0 "[plain_task ''a'']" "''a''"]
  by (simp add: plain_task_def)

subsection \<open>Sorting by priority\<close>

lemma set_insertBy: "set (insertBy cmp x xs) = insert x (set xs)"
  by (induction xs) auto

lemma sorted_wrt_insertBy:
  assumes tr: "\<And>x y z. R x y \<Longrightarrow> R y z \<Longrightarrow> R x z"
    and le: "\<And>x y. cmp x y \<le> 0 \<Longrightarrow> R x y"
    and gt: "\<And>x y. \<not> cmp x y \<le> 0 \<Longrightarrow> R y x"
  shows "sorted_wrt R xs \<Longrightarrow> sorted_wrt R (insertBy cmp x xs)"
proof (induction xs)
  case Nil
  then show ?case by simp
next
  case (Cons y ys)
  show ?case
  proof (cases "cmp x y \<le> 0")
    case True
    then have "R x y" by (rule le)
    moreover have "\<forall>z\<in>set ys. R y z" using Cons.prems by simp
    ultimately have "\<forall>z\<in>set (y # ys). R x z" using tr by auto
    with True Cons.prems show ?thesis by simp
  next
    case False
    then have "R y x" by (rule gt)
    moreover have "\<forall>z\<in>set ys. R y z" using Cons.prems by simp
    moreover have "sorted_wrt R (insertBy cmp x ys)" using Cons by simp
    ultimately show ?thesis using False by (simp add: set_insertBy)
  qed
qed

lemma sorted_wrt_arraySort:
  assumes tr: "\<And>x y z. R x y \<Longrightarrow> R y z \<Longrightarrow> R x z"
    and le: "\<And>x y. cmp x y \<le> 0 \<Longrightarrow> R x y"
    and gt: "\<And>x y. \<not> cmp x y \<le> 0 \<Longrightarrow> R y x"
  shows "sorted_wrt R (arraySort cmp xs)"
proof (induction xs)
  case Nil
  show ?case by simp
next
  case (Cons x xs)
  then show ?case using sorted_wrt_insertBy [of R cmp, OF tr le gt] by simp
qed

lemma compareTodos_Priority_Desc:
  "compareTodos Priority Desc a b =
     (if priorityOrder (priority a) < priorityOrder (priority b) then 1 else - 1)"
  by (simp add: compareTodos_def sortValue_def)

lemma compareTodos_Priority_Asc:
  "compareTodos Priority Asc a b =
     (if priorityOrder (priority b) < priorityOrder (priority a) then 1 else - 1)"
  by (simp add: compareTodos_def sortValue_def)

lemma sorted_priority_Desc:
  "sorted_wrt (\<lambda>x y. priorityOrder (priority y) \<le> priorityOrder (priority x))
     (arraySort (compareTodos Priority Desc) xs)"
  by (rule sorted_wrt_arraySort) (auto simp: compareTodos_Priority_Desc split: if_splits)

lemma sorted_priority_Asc:
  "sorted_wrt (\<lambda>x y. priorityOrder (priority x) \<le> priorityOrder (priority y))
     (arraySort (compareTodos Priority Asc) xs)"
  by (rule sorted_wrt_arraySort) (auto simp: compareTodos_Priority_Asc split: if_splits)

text \<open>
  Claim C7. Sorting by the key \<open>priority\<close> maps the priorities to the ordinals high = 3,
  medium = 2, low = 1 and compares them as numbers: the view is in descending order of the
  ordinal for the direction \<open>desc\<close> and in ascending order for \<open>asc\<close>; three tasks with the
  priorities low, high, medium come out, for \<open>desc\<close>, in the order high, medium, low.
\<close>

theorem sort_by_priority:
  "priorityOrder High = 3 \<and> priorityOrder Medium = 2 \<and> priorityOrder Low = 1 \<and>
   sorted_wrt (\<lambda>x y. priorityOrder (priority y) \<le> priorityOrder (priority x))
     (filterAndSortTodos \<lparr>searchQuery = sq, status_filter = f, sortBy = Priority, sortOrder = Desc\<rparr>
        now todoList) \<and>
   sorted_wrt (\<lambda>x y. priorityOrder (priority x) \<le> priorityOrder (priority y))
     (filterAndSortTodos \<lparr>searchQuery = sq, status_filter = f, sortBy = Priority, sortOrder = Asc\<rparr>
        now todoList) \<and>
   filterAndSortTodos \<lparr>searchQuery = [], status_filter = All_tasks, sortBy = Priority, sortOrder = Desc\<rparr>
        now [a\<lparr>priority := Low\<rparr>, b\<lparr>priority := High\<rparr>, c\<lparr>priority := Medium\<rparr>]
     = [b\<lparr>priority := High\<rparr>, c\<lparr>priority := Medium\<rparr>, a\<lparr>priority := Low\<rparr>]"
proof -
  have ord: "priorityOrder High = 3 \<and> priorityOrder Medium = 2 \<and> priorityOrder Low = 1"
    by (simp add: priorityOrder_def)
  have d: "sorted_wrt (\<lambda>x y. priorityOrder (priority y) \<le> priorityOrder (priority x))
     (filterAndSortTodos \<lparr>searchQuery = sq, status_filter = f, sortBy = Priority, sortOrder = Desc\<rparr>
        now todoList)"
    by (simp add: filterAndSortTodos_def Let_def sorted_priority_Desc)
  have a: "sorted_wrt (\<lambda>x y. priorityOrder (priority x) \<le> priorityOrder (priority y))
     (filterAndSortTodos \<lparr>searchQuery = sq, status_filter = f, sortBy = Priority, sortOrder = Asc\<rparr>
        now todoList)"
    by (simp add: filterAndSortTodos_def Let_def sorted_priority_Asc)
  have ex: "filterAndSortTodos \<lparr>searchQuery = [], status_filter = All_tasks, sortBy = Priority, sortOrder = Desc\<rparr>
        now [a\<lparr>priority := Low\<rparr>, b\<lparr>priority := High\<rparr>, c\<lparr>priority := Medium\<rparr>]
     = [b\<lparr>priority := High\<rparr>, c\<lparr>priority := Medium\<rparr>, a\<lparr>priority := Low\<rparr>]"
    by (simp add: filterAndSortTodos_def matchesStatus_def compareTodos_Priority_Desc priorityOrder_def)
  from ord d a ex show ?thesis by blast
qed

theorem sort_by_priority_witness:
  "filterAndSortTodos \<lparr>searchQuery = [], status_filter = All_tasks, sortBy = Priority, sortOrder = Desc\<rparr>
        0 [(plain_task ''a'')\<lparr>priority := Low\<rparr>, (plain_task ''b'')\<lparr>priority := High\<rparr>,
           (plain_task ''c'')\<lparr>priority := Medium\<rparr>]
     = [(plain_task ''b'')\<lparr>priority := High\<rparr>, (plain_task ''c'')\<lparr>priority := Medium\<rparr>,
        (plain_task ''a'')\<lparr>priority := Low\<rparr>]"
  using sort_by_priority [of "[]" All_tasks 0 "[]" "plain_task ''a''" "plain_task ''b''" "plain_task ''c''"]
  by simp

text \<open>
  The order of the example does not depend on the sorting algorithm: every arrangement of the
  three tasks that the comparator accepts pairwise is the one above.
\<close>

lemma priority_example_any_sort:
  assumes perm: "mset ys = mset [a\<lparr>priority := Low\<rparr>, b\<lparr>priority := High\<rparr>, c\<lparr>priority := Medium\<rparr>]"
    and ordered: "sorted_wrt (\<lambda>x y. compareTodos Priority Desc x y \<le> 0) ys"
  shows "ys = [b\<lparr>priority := High\<rparr>, c\<lparr>priority := Medium\<rparr>, a\<lparr>priority := Low\<rparr>]"
proof -
  let ?A = "a\<lparr>priority := Low\<rparr>" and ?B = "b\<lparr>priority := High\<rparr>" and ?C = "c\<lparr>priority := Medium\<rparr>"
  have "length ys = 3" using perm [THEN arg_cong, of size] by simp
  then obtain x y z where ys: "ys = [x, y, z]"
    by (auto simp: length_Suc_conv numeral_3_eq_3)
  have ord: "priorityOrder (priority y) \<le> priorityOrder (priority x)"
            "priorityOrder (priority z) \<le> priorityOrder (priority x)"
            "priorityOrder (priority z) \<le> priorityOrder (priority y)"
    using ordered by (auto simp: ys compareTodos_Priority_Desc split: if_splits)
  have pm: "mset (map priority ys) = mset [Low, High, Medium]"
    using perm [THEN arg_cong, of "image_mset priority"] by simp
  have d: "distinct (map priority ys)"
    using mset_eq_imp_distinct_iff [OF pm] by simp
  have ps: "priority x = High \<and> priority y = Medium \<and> priority z = Low"
    using ord d
    by (cases "priority x"; cases "priority y"; cases "priority z")
       (simp_all add: ys priorityOrder_def)
  have mem: "set ys = {?A, ?B, ?C}" using mset_eq_setD [OF perm] by simp
  have "x \<in> {?A, ?B, ?C}" "y \<in> {?A, ?B, ?C}" "z \<in> {?A, ?B, ?C}"
    using mem by (auto simp: ys)
  with ps have "x = ?B" "y = ?C" "z = ?A" by auto
  then show ?thesis by (simp add: ys)
qed

section \<open>Statistics\<close>

lemma length_filter_split: "length xs = length (filter (\<lambda>t. \<not> P t) xs) + length (filter P xs)"
  by (induction xs) auto

lemma calculateGuestStats_total:
  "\<exists>a. st_active (calculateGuestStats now todoList) = Some a \<and>
        st_total (calculateGuestStats now todoList)
          = a + st_completed (calculateGuestStats now todoList)"
  using length_filter_split [of todoList completed] by (simp add: calculateGuestStats_def)

lemma getStats_overview_fields:
  "st_active (getStats_overview now rows) = None \<and>
   st_high_priority (getStats_overview now rows) = None \<and>
   st_pending (getStats_overview now rows)
     = Some (st_total (getStats_overview now rows) - st_completed (getStats_overview now rows))"
  by (simp add: getStats_overview_def Let_def)

text \<open>
  Claim C4. Every statistics snapshot is to satisfy \<open>total = active + completed\<close>, in guest
  mode and in authenticated mode. The guest computation does (\<open>calculateGuestStats_total\<close>).
  In authenticated mode the snapshot that \<open>fetchStats\<close> stores is the \<open>overview\<close> of
  \<open>todosAPI.getStats\<close>, which is annotated with the interface \<open>TodoStats\<close> but writes the
  count of open tasks to a property \<open>pending\<close> and has no property \<open>active\<close>: for a table
  holding one open task the snapshot has \<open>total = 1\<close>, \<open>completed = 0\<close>, \<open>pending = 1\<close> and
  \<open>active\<close> undefined, so the equation does not hold of it.
\<close>

theorem getStats_has_no_active:
  "stats (fetchStats (online_world 0 [plain_task ''a'']) (initial_state False))
     = \<lparr>st_total = 1, st_active = None, st_completed = 0, st_high_priority = None,
        st_overdue = 0, st_pending = Some 1\<rparr>"
  by (simp add: fetchStats_def initial_state_def todosAPI_getStats_def online_world_def
      offline_world_def service_select_def getStats_overview_def plain_task_def Let_def)

section \<open>Operations of the hook\<close>

subsection \<open>Deleting a task\<close>

lemma selectedTodos_fetchTodos [simp]: "selectedTodos (fetchTodos w s) = selectedTodos s"
  by (simp add: fetchTodos_def split: sum.splits)

lemma selectedTodos_fetchStats [simp]: "selectedTodos (fetchStats w s) = selectedTodos s"
  by (simp add: fetchStats_def split: sum.splits)

lemma selectedTodos_setItem: "setItem w xs s = Inr s1 \<Longrightarrow> selectedTodos s1 = selectedTodos s"
  by (auto simp: setItem_def split: if_splits)

text \<open>
  Claim C8. For every state, world and id, in guest and in authenticated mode: after a
  successful \<open>deleteTodo\<close> of one task the id is not in the selection.
\<close>

theorem deleteTodo_unselects:
  "deleteTodo w i s = (Inr u, s') \<Longrightarrow> i \<notin> set (selectedTodos s')"
  by (auto simp: deleteTodo_def split: if_splits sum.splits)

theorem deleteTodo_unselects_witness:
  "deleteTodo (offline_world 0) ''a''
      ((initial_state True)\<lparr>guest_todos := Stored [plain_task ''a''], selectedTodos := [''a'', ''b'']\<rparr>)
     = (Inr (), (initial_state True)\<lparr>guest_todos := Stored [],
           stats := calculateGuestStats 0 [], selectedTodos := [''b'']\<rparr>)
   \<and> ''a'' \<notin> set [''b'']"
  using deleteTodo_unselects [of "offline_world 0" "''a''"
      "(initial_state True)\<lparr>guest_todos := Stored [plain_task ''a''], selectedTodos := [''a'', ''b'']\<rparr>"
      "()" "(initial_state True)\<lparr>guest_todos := Stored [],
           stats := calculateGuestStats 0 [], selectedTodos := [''b'']\<rparr>"]
  by (simp add: deleteTodo_def initial_state_def loadAll_def setItem_def offline_world_def
      plain_task_def fetchTodos_def fetchStats_def filterAndSortTodos_def Let_def)

subsection \<open>Bulk completion\<close>

lemma guest_todos_fetchTodos [simp]: "guest_todos (fetchTodos w s) = guest_todos s"
  by (simp add: fetchTodos_def split: sum.splits)

lemma guest_todos_fetchStats [simp]: "guest_todos (fetchStats w s) = guest_todos s"
  by (simp add: fetchStats_def split: sum.splits)






subsection \<open>Adding a task with a blank title\<close>

lemma or_else_simps [simp]: "or_else None d = d" "or_else (Some x) d = x"
  by (simp_all add: or_else_def)

lemma trim_no_break_space:
  "trim [CHR 0xA0] = [] \<and> trim [CHR 0xA0, CHR ''a'', CHR 0x0A] = ''a''"
  by (simp add: trim_def isWhitespace_def)

lemma trim_blank: "list_all isWhitespace title \<Longrightarrow> trim title = []"
proof -
  assume "list_all isWhitespace title"
  then have "dropWhile isWhitespace title = []" by (induction title) auto
  then show ?thesis by (simp only: trim_def rev.simps dropWhile.simps)
qed

text \<open>
  Claim C1, as amended. \<open>addTodo\<close> does not validate the title and no \<open>ValidationError\<close>
  exists. For every title consisting only of whitespace (the empty title included): the
  submit handler of the input form does not call \<open>addTodo\<close> and leaves the form and the whole
  state, hence the collection, unchanged; \<open>addTodo\<close> itself, called with such a title in
  guest mode on a readable slot with quota left, succeeds and stores a task with the empty
  title in front of the collection; in authenticated mode its outcome is that of the remote
  insert of a task with the empty title.
\<close>

theorem addTodo_blank_title:
  assumes "list_all isWhitespace title"
  shows "handleSubmit w (f\<lparr>f_text := title\<rparr>) s = (f\<lparr>f_text := title\<rparr>, s) \<and>
     (isGuest s \<and> loadAll (guest_todos s) = Inr xs \<and> \<not> quota_exceeded w \<longrightarrow>
        (\<exists>t. fst (addTodo w title prio options s) = Inr t \<and> todo_text t = [] \<and>
             guest_todos (snd (addTodo w title prio options s)) = Stored (t # xs))) \<and>
     (\<not> isGuest s \<longrightarrow>
        fst (addTodo w title prio options s)
          = supabase_insert w \<lparr>c_text = [], c_priority = prio, c_options = options\<rparr>)"
proof -
  have t: "trim title = []" using assms by (rule trim_blank)
  have a: "handleSubmit w (f\<lparr>f_text := title\<rparr>) s = (f\<lparr>f_text := title\<rparr>, s)"
    by (simp add: handleSubmit_def t)
  have b: "isGuest s \<and> loadAll (guest_todos s) = Inr xs \<and> \<not> quota_exceeded w \<longrightarrow>
        (\<exists>t. fst (addTodo w title prio options s) = Inr t \<and> todo_text t = [] \<and>
             guest_todos (snd (addTodo w title prio options s)) = Stored (t # xs))"
    by (simp add: addTodo_def t setItem_def Let_def)
  have c: "\<not> isGuest s \<longrightarrow>
        fst (addTodo w title prio options s)
          = supabase_insert w \<lparr>c_text = [], c_priority = prio, c_options = options\<rparr>"
    by (simp add: addTodo_def t split: sum.splits)
  from a b c show ?thesis by blast
qed

text \<open>
  The claim as stated fails: in a fresh guest session \<open>addTodo\<close> of a title of three spaces
  does not fail, and the stored collection grows from no task to one task.
\<close>

theorem addTodo_blank_title_counterexample:
  "list_all isWhitespace ''   '' \<and>
   fst (addTodo (offline_world 10) ''   '' Medium None (initial_state True)) \<noteq> Inl ValidationError \<and>
   loadAll (guest_todos (initial_state True)) = Inr [] \<and>
   loadAll (guest_todos (snd (addTodo (offline_world 10) ''   '' Medium None (initial_state True))))
     = Inr [(plain_task ''guest_1_abc'')\<lparr>todo_text := [], created_at := 10, updated_at := 10\<rparr>]"
  by (simp add: addTodo_def initial_state_def loadAll_def setItem_def offline_world_def
      plain_task_def trim_def isWhitespace_def Let_def)

theorem addTodo_blank_title_witness:
  "list_all isWhitespace [CHR 0xA0, CHR 0x09, CHR '' ''] \<and>
   handleSubmit (offline_world 10)
       \<lparr>f_text = [CHR 0xA0, CHR 0x09, CHR '' ''], f_priority = Medium, f_description = [],
        f_dueDate = None, f_tags = [], f_isSubmitting = False\<rparr> (initial_state True)
     = (\<lparr>f_text = [CHR 0xA0, CHR 0x09, CHR '' ''], f_priority = Medium, f_description = [],
        f_dueDate = None, f_tags = [], f_isSubmitting = False\<rparr>, initial_state True) \<and>
   (\<exists>t. fst (addTodo (offline_world 10) [CHR 0xA0, CHR 0x09, CHR '' ''] Medium None
               (initial_state True)) = Inr t \<and>
        todo_text t = [] \<and>
        guest_todos (snd (addTodo (offline_world 10) [CHR 0xA0, CHR 0x09, CHR '' ''] Medium None
                            (initial_state True)))
          = Stored [t])"
proof -
  have h: "list_all isWhitespace [CHR 0xA0, CHR 0x09, CHR '' '']" by (simp add: isWhitespace_def)
  have g: "isGuest (initial_state True) \<and> loadAll (guest_todos (initial_state True)) = Inr [] \<and>
           \<not> quota_exceeded (offline_world 10)"
    by (simp add: initial_state_def loadAll_def offline_world_def)
  from addTodo_blank_title [OF h, of "offline_world 10"
      "\<lparr>f_text = [CHR 0xA0, CHR 0x09, CHR '' ''], f_priority = Medium, f_description = [],
        f_dueDate = None, f_tags = [], f_isSubmitting = False\<rparr>" "initial_state True" "[]" Medium None] h g
  show ?thesis by simp
qed

subsection \<open>Toggling a task\<close>

lemma find_None_ids: "find (\<lambda>t. todo_id t = i) xs = None \<longleftrightarrow> i \<notin> todo_id ` set xs"
  by (auto simp: find_None_iff)

lemma find_Some_ids:
  "find (\<lambda>t. todo_id t = i) xs = Some t \<Longrightarrow> t \<in> set xs \<and> todo_id t = i"
  by (auto simp: find_Some_iff)

text \<open>
  Claim C5, as amended. \<open>toggleTodo\<close> raises no \<open>NotFound\<close>: for every id that is not in the
  loaded projection it returns without an error and leaves the state unchanged; for every id
  in the projection it performs \<open>updateTodo\<close> of that id with the update
  \<open>{completed: !todo.completed}\<close>, where \<open>todo\<close> is the first task of the projection with the
  id, and passes on the state and the failure of that update.
\<close>

theorem toggleTodo_cases:
  "(i \<notin> todo_id ` set (todos s) \<longrightarrow> toggleTodo w i s = (Inr (), s)) \<and>
   (i \<in> todo_id ` set (todos s) \<longrightarrow>
      (\<exists>t. find (\<lambda>t. todo_id t = i) (todos s) = Some t \<and> t \<in> set (todos s) \<and> todo_id t = i \<and>
           toggleTodo w i s =
             (map_sum (\<lambda>e. e) (\<lambda>t. ())
                (fst (updateTodo w i (no_updates\<lparr>p_completed := Some (\<not> completed t)\<rparr>) s)),
              snd (updateTodo w i (no_updates\<lparr>p_completed := Some (\<not> completed t)\<rparr>) s))))"
proof (cases "find (\<lambda>t. todo_id t = i) (todos s)")
  case None
  then have "i \<notin> todo_id ` set (todos s)" by (simp add: find_None_ids)
  with None show ?thesis by (simp add: toggleTodo_def)
next
  case (Some t)
  then have mem: "t \<in> set (todos s) \<and> todo_id t = i" by (rule find_Some_ids)
  have "toggleTodo w i s =
             (map_sum (\<lambda>e. e) (\<lambda>t. ())
                (fst (updateTodo w i (no_updates\<lparr>p_completed := Some (\<not> completed t)\<rparr>) s)),
              snd (updateTodo w i (no_updates\<lparr>p_completed := Some (\<not> completed t)\<rparr>) s))"
    using Some by (simp add: toggleTodo_def split: prod.splits sum.splits)
  with Some mem show ?thesis by blast
qed

text \<open>
  The claim as stated fails: toggling an id that the (empty) projection does not hold
  succeeds and changes nothing.
\<close>

theorem toggleTodo_cases_counterexample:
  "''x'' \<notin> todo_id ` set (todos (initial_state True)) \<and>
   fst (toggleTodo (offline_world 10) ''x'' (initial_state True)) \<noteq> Inl NotFound \<and>
   toggleTodo (offline_world 10) ''x'' (initial_state True) = (Inr (), initial_state True)"
  by (simp add: toggleTodo_def initial_state_def)

theorem toggleTodo_cases_witness:
  "''a'' \<in> todo_id ` set (todos ((initial_state True)
        \<lparr>guest_todos := Stored [plain_task ''a''], todos := [plain_task ''a'']\<rparr>)) \<and>
   ''b'' \<notin> todo_id ` set (todos ((initial_state True)
        \<lparr>guest_todos := Stored [plain_task ''a''], todos := [plain_task ''a'']\<rparr>)) \<and>
   toggleTodo (offline_world 10) ''b'' ((initial_state True)
        \<lparr>guest_todos := Stored [plain_task ''a''], todos := [plain_task ''a'']\<rparr>)
     = (Inr (), (initial_state True)
        \<lparr>guest_todos := Stored [plain_task ''a''], todos := [plain_task ''a'']\<rparr>) \<and>
   toggleTodo (offline_world 10) ''a'' ((initial_state True)
        \<lparr>guest_todos := Stored [plain_task ''a''], todos := [plain_task ''a'']\<rparr>)
     = (Inr (), (initial_state True)
        \<lparr>guest_todos := Stored [(plain_task ''a'')\<lparr>completed := True, updated_at := 10\<rparr>],
         todos := [(plain_task ''a'')\<lparr>completed := True, updated_at := 10\<rparr>],
         stats := calculateGuestStats 10 [(plain_task ''a'')\<lparr>completed := True, updated_at := 10\<rparr>]\<rparr>)"
proof -
  let ?s = "(initial_state True)\<lparr>guest_todos := Stored [plain_task ''a''], todos := [plain_task ''a'']\<rparr>"
  have a: "''a'' \<in> todo_id ` set (todos ?s)" by (simp add: plain_task_def)
  have b: "''b'' \<notin> todo_id ` set (todos ?s)" by (simp add: plain_task_def)
  have f: "find (\<lambda>t. todo_id t = ''a'') (todos ?s) = Some (plain_task ''a'')"
    by (simp add: plain_task_def)
  have u: "updateTodo (offline_world 10) ''a''
             (no_updates\<lparr>p_completed := Some (\<not> completed (plain_task ''a''))\<rparr>) ?s
     = (Inr ((plain_task ''a'')\<lparr>completed := True, updated_at := 10\<rparr>), (initial_state True)
        \<lparr>guest_todos := Stored [(plain_task ''a'')\<lparr>completed := True, updated_at := 10\<rparr>],
         todos := [(plain_task ''a'')\<lparr>completed := True, updated_at := 10\<rparr>],
         stats := calculateGuestStats 10 [(plain_task ''a'')\<lparr>completed := True, updated_at := 10\<rparr>]\<rparr>)"
    by (simp add: updateTodo_def initial_state_def loadAll_def setItem_def offline_world_def
        plain_task_def fetchTodos_def fetchStats_def filterAndSortTodos_def Let_def spread_def
        no_updates_def initial_query_def matchesStatus_def)
  from toggleTodo_cases [of "''b''" ?s "offline_world 10"] b
  have nb: "toggleTodo (offline_world 10) ''b'' ?s = (Inr (), ?s)" by blast
  from toggleTodo_cases [of "''a''" ?s "offline_world 10"] a f u
  have na: "toggleTodo (offline_world 10) ''a'' ?s = (Inr (), (initial_state True)
        \<lparr>guest_todos := Stored [(plain_task ''a'')\<lparr>completed := True, updated_at := 10\<rparr>],
         todos := [(plain_task ''a'')\<lparr>completed := True, updated_at := 10\<rparr>],
         stats := calculateGuestStats 10 [(plain_task ''a'')\<lparr>completed := True, updated_at := 10\<rparr>]\<rparr>)"
    by auto
  from a b nb na show ?thesis by blast
qed

subsection \<open>Updating a task that the guest collection does not hold\<close>

lemma findIndex_None: "findIndex P xs = None \<longleftrightarrow> (\<forall>x\<in>set xs. \<not> P x)"
  by (induction xs) auto

lemma guest_todos_updateTodo_api: "guest_todos (snd (updateTodo_api w i updates s)) = guest_todos s"
  by (simp add: updateTodo_api_def split: sum.splits)

lemma updateTodo_absent_falls_through:
  assumes "isGuest s" and "loadAll (guest_todos s) = Inr xs" and "i \<notin> todo_id ` set xs"
  shows "updateTodo w i updates s = updateTodo_api w i updates s"
proof -
  have "findIndex (\<lambda>t. todo_id t = i) xs = None"
    using assms(3) by (auto simp: findIndex_None)
  with assms(1,2) show ?thesis by (simp add: updateTodo_def)
qed

text \<open>
  Claim C2, as amended. For every id that is not present in the stored guest collection, the
  guest-mode \<open>updateTodo\<close> leaves the stored collection unchanged, whatever it reports to
  the caller.
\<close>

theorem updateTodo_absent_keeps_store:
  assumes "isGuest s" and "loadAll (guest_todos s) = Inr xs" and "i \<notin> todo_id ` set xs"
  shows "guest_todos (snd (updateTodo w i updates s)) = guest_todos s"
  using updateTodo_absent_falls_through [OF assms] by (simp add: guest_todos_updateTodo_api)

text \<open>
  The claim as stated fails: the guest block raises nothing for an unknown id, and the caller
  gets what the remote update gives. With the service out of reach that is its error, not
  \<open>NotFound\<close>; with a service that holds a row of that id the call succeeds.
\<close>

theorem updateTodo_absent_keeps_store_counterexample:
  "''x'' \<notin> todo_id ` set [plain_task ''a''] \<and>
   fst (updateTodo (offline_world 10) ''x'' (no_updates\<lparr>p_completed := Some True\<rparr>)
          ((initial_state True)\<lparr>guest_todos := Stored [plain_task ''a'']\<rparr>)) = Inl RemoteError \<and>
   fst (updateTodo (online_world 10 [plain_task ''x'']) ''x'' (no_updates\<lparr>p_completed := Some True\<rparr>)
          ((initial_state True)\<lparr>guest_todos := Stored [plain_task ''a'']\<rparr>))
     = Inr ((plain_task ''x'')\<lparr>completed := True, updated_at := 10\<rparr>)"
  by (simp add: updateTodo_def updateTodo_api_def initial_state_def loadAll_def offline_world_def
      online_world_def plain_task_def spread_def no_updates_def)

theorem updateTodo_absent_keeps_store_witness:
  "isGuest ((initial_state True)\<lparr>guest_todos := Stored [plain_task ''a'']\<rparr>) \<and>
   loadAll (guest_todos ((initial_state True)\<lparr>guest_todos := Stored [plain_task ''a'']\<rparr>))
     = Inr [plain_task ''a''] \<and>
   ''x'' \<notin> todo_id ` set [plain_task ''a''] \<and>
   guest_todos (snd (updateTodo (offline_world 10) ''x'' (no_updates\<lparr>p_completed := Some True\<rparr>)
          ((initial_state True)\<lparr>guest_todos := Stored [plain_task ''a'']\<rparr>)))
     = Stored [plain_task ''a'']"
proof -
  let ?s = "(initial_state True)\<lparr>guest_todos := Stored [plain_task ''a'']\<rparr>"
  have h1: "isGuest ?s" by (simp add: initial_state_def)
  have h2: "loadAll (guest_todos ?s) = Inr [plain_task ''a'']" by (simp add: loadAll_def)
  have h3: "''x'' \<notin> todo_id ` set [plain_task ''a'']" by (simp add: plain_task_def)
  from updateTodo_absent_keeps_store [OF h1 h2 h3] h1 h2 h3 show ?thesis by simp
qed

section \<open>Guest view and remote selection\<close>

lemma set_service_select:
  "set (service_select cs table) = {t \<in> set table. list_all (\<lambda>c. clause_holds c t) cs}"
  by (simp add: service_select_def)

lemma fetch_clauses_hold:
  "list_all (\<lambda>c. clause_holds c t) (getAll_clauses (fetch_params q)) \<longleftrightarrow>
     (searchQuery q = [] \<or> str_includes (toLowerCase (todo_text t)) (toLowerCase (searchQuery q))) \<and>
     (case status_filter q of
        All_tasks \<Rightarrow> True
      | Active \<Rightarrow> \<not> completed t
      | Completed \<Rightarrow> completed t
      | Overdue \<Rightarrow> \<not> completed t
      | HighPriority \<Rightarrow> priority t = High \<and> \<not> completed t)"
  by (cases "status_filter q"; cases "searchQuery q = []")
     (auto simp: fetch_params_def getAll_clauses_def Let_def)

text \<open>
  Claim C3, as amended. For every collection and every query spec whose status filter is
  \<open>all\<close>, \<open>active\<close>, \<open>completed\<close> or \<open>high-priority\<close>, the documented remote service, asked
  with the parameters that \<open>fetchTodos\<close> sends, selects exactly those tasks of the guest view
  whose title contains the search string (case-insensitively), hence exactly the guest view
  when the search string is empty. For the status filter \<open>overdue\<close> the guest view consists of
  exactly the tasks that match the search, have a due timestamp earlier than now and are not
  completed.
\<close>

theorem guest_and_remote_views:
  "(status_filter q \<noteq> Overdue \<longrightarrow>
      set (service_select (getAll_clauses (fetch_params q)) coll)
        = {t \<in> set (filterAndSortTodos q now coll).
             searchQuery q = [] \<or>
             str_includes (toLowerCase (todo_text t)) (toLowerCase (searchQuery q))}) \<and>
   (status_filter q \<noteq> Overdue \<and> searchQuery q = [] \<longrightarrow>
      set (service_select (getAll_clauses (fetch_params q)) coll)
        = set (filterAndSortTodos q now coll)) \<and>
   (status_filter q = Overdue \<longrightarrow>
      set (filterAndSortTodos q now coll)
        = {t \<in> set coll. (searchQuery q = [] \<or> matchesSearch (searchQuery q) t) \<and>
             (\<exists>d. due_date t = Some d \<and> d < now) \<and> \<not> completed t})"
proof -
  have a: "status_filter q \<noteq> Overdue \<longrightarrow>
      set (service_select (getAll_clauses (fetch_params q)) coll)
        = {t \<in> set (filterAndSortTodos q now coll).
             searchQuery q = [] \<or>
             str_includes (toLowerCase (todo_text t)) (toLowerCase (searchQuery q))}"
    by (cases "status_filter q")
       (auto simp: set_service_select fetch_clauses_hold set_filterAndSortTodos matchesStatus_def
          matchesSearch_def)
  have c: "status_filter q = Overdue \<longrightarrow>
      set (filterAndSortTodos q now coll)
        = {t \<in> set coll. (searchQuery q = [] \<or> matchesSearch (searchQuery q) t) \<and>
             (\<exists>d. due_date t = Some d \<and> d < now) \<and> \<not> completed t}"
    by (auto simp: set_filterAndSortTodos matchesStatus_def isOverdue_def split: option.splits)
  from a c show ?thesis by auto
qed

text \<open>
  The claim as stated fails. With the filter \<open>overdue\<close> the facade sends only
  \<open>completed = false\<close>: for a collection of one open task without a due date the guest view is
  empty and the authenticated view holds the task. With a search string that occurs in the
  description only, the guest view holds the task and the remote selection does not.
\<close>

theorem guest_and_remote_views_counterexample:
  "todos (fetchTodos (offline_world 100)
      ((initial_state True)\<lparr>guest_todos := Stored [plain_task ''a''],
                              query := initial_query\<lparr>status_filter := Overdue\<rparr>\<rparr>)) = [] \<and>
   todos (fetchTodos (online_world 100 [plain_task ''a''])
      ((initial_state False)\<lparr>query := initial_query\<lparr>status_filter := Overdue\<rparr>\<rparr>))
     = [plain_task ''a''] \<and>
   set (filterAndSortTodos (initial_query\<lparr>status_filter := Overdue\<rparr>) 100 [plain_task ''a''])
     \<noteq> set (service_select (getAll_clauses (fetch_params (initial_query\<lparr>status_filter := Overdue\<rparr>)))
            [plain_task ''a'']) \<and>
   set (filterAndSortTodos (initial_query\<lparr>searchQuery := ''milk''\<rparr>) 100
          [(plain_task ''a'')\<lparr>description := Some ''buy milk''\<rparr>])
     \<noteq> set (service_select (getAll_clauses (fetch_params (initial_query\<lparr>searchQuery := ''milk''\<rparr>)))
            [(plain_task ''a'')\<lparr>description := Some ''buy milk''\<rparr>])"
  by (simp add: fetchTodos_def initial_state_def loadAll_def offline_world_def online_world_def
      todosAPI_getAll_def getAll_clauses_def fetch_params_def service_select_def
      filterAndSortTodos_def matchesStatus_def isOverdue_def matchesSearch_def initial_query_def
      plain_task_def toLowerCase_def lowerChar_def Let_def)

theorem guest_and_remote_views_witness:
  "status_filter (initial_query\<lparr>status_filter := Active\<rparr>) \<noteq> Overdue \<and>
   searchQuery (initial_query\<lparr>status_filter := Active\<rparr>) = [] \<and>
   set (service_select (getAll_clauses (fetch_params (initial_query\<lparr>status_filter := Active\<rparr>)))
          [plain_task ''a'', (plain_task ''b'')\<lparr>completed := True\<rparr>])
     = set (filterAndSortTodos (initial_query\<lparr>status_filter := Active\<rparr>) 100
          [plain_task ''a'', (plain_task ''b'')\<lparr>completed := True\<rparr>]) \<and>
   status_filter (initial_query\<lparr>status_filter := Overdue\<rparr>) = Overdue \<and>
   set (filterAndSortTodos (initial_query\<lparr>status_filter := Overdue\<rparr>) 100
          [(plain_task ''a'')\<lparr>due_date := Some 50\<rparr>, plain_task ''b''])
     = {(plain_task ''a'')\<lparr>due_date := Some 50\<rparr>}"
proof -
  have h1: "status_filter (initial_query\<lparr>status_filter := Active\<rparr>) \<noteq> Overdue \<and>
            searchQuery (initial_query\<lparr>status_filter := Active\<rparr>) = []"
    by (simp add: initial_query_def)
  have h2: "status_filter (initial_query\<lparr>status_filter := Overdue\<rparr>) = Overdue" by simp
  from guest_and_remote_views [of "initial_query\<lparr>status_filter := Active\<rparr>"
      "[plain_task ''a'', (plain_task ''b'')\<lparr>completed := True\<rparr>]" 100] h1
  have a: "set (service_select (getAll_clauses (fetch_params (initial_query\<lparr>status_filter := Active\<rparr>)))
          [plain_task ''a'', (plain_task ''b'')\<lparr>completed := True\<rparr>])
     = set (filterAndSortTodos (initial_query\<lparr>status_filter := Active\<rparr>) 100
          [plain_task ''a'', (plain_task ''b'')\<lparr>completed := True\<rparr>])"
    by blast
  from guest_and_remote_views [of "initial_query\<lparr>status_filter := Overdue\<rparr>"
      "[(plain_task ''a'')\<lparr>due_date := Some 50\<rparr>, plain_task ''b'']" 100] h2
  have "set (filterAndSortTodos (initial_query\<lparr>status_filter := Overdue\<rparr>) 100
          [(plain_task ''a'')\<lparr>due_date := Some 50\<rparr>, plain_task ''b''])
        = {t \<in> set [(plain_task ''a'')\<lparr>due_date := Some 50\<rparr>, plain_task ''b''].
             (searchQuery (initial_query\<lparr>status_filter := Overdue\<rparr>) = [] \<or>
              matchesSearch (searchQuery (initial_query\<lparr>status_filter := Overdue\<rparr>)) t) \<and>
             (\<exists>d. due_date t = Some d \<and> d < 100) \<and> \<not> completed t}"
    by blast
  also have "\<dots> = {(plain_task ''a'')\<lparr>due_date := Some 50\<rparr>}"
    by (auto simp: initial_query_def plain_task_def)
  finally show ?thesis using h1 h2 a by blast
qed

section \<open>Toggling twice\<close>

lemma findIndex_first:
  "distinct (map f xs) \<Longrightarrow> k < length xs \<Longrightarrow> findIndex (\<lambda>x. f x = f (xs ! k)) xs = Some k"
proof (induction xs arbitrary: k)
  case Nil
  then show ?case by simp
next
  case (Cons x xs)
  show ?case
  proof (cases k)
    case 0
    then show ?thesis by simp
  next
    case (Suc j)
    with Cons.prems have j: "j < length xs" and d: "distinct (map f xs)" by simp_all
    from Cons.prems Suc j have "f x \<noteq> f (xs ! j)" by force
    with Cons.IH [OF d j] Suc show ?thesis by simp
  qed
qed

lemma find_by_key:
  "distinct (map f xs) \<Longrightarrow> y \<in> set xs \<Longrightarrow> find (\<lambda>x. f x = f y) xs = Some y"
proof (induction xs)
  case Nil
  then show ?case by simp
next
  case (Cons x xs)
  then show ?case by (cases "x = y") force+
qed

lemma same_key_same_elem:
  "distinct (map f xs) \<Longrightarrow> x \<in> set xs \<Longrightarrow> y \<in> set xs \<Longrightarrow> f x = f y \<Longrightarrow> x = y"
  by (metis distinct_map inj_onD)

lemma spread_completed:
  "spread t (no_updates\<lparr>p_completed := Some b\<rparr>) = t\<lparr>completed := b\<rparr>"
  by (simp add: spread_def no_updates_def)

lemma isGuest_fetchTodos [simp]: "isGuest (fetchTodos w s) = isGuest s"
  by (simp add: fetchTodos_def split: sum.splits)

lemma isGuest_fetchStats [simp]: "isGuest (fetchStats w s) = isGuest s"
  by (simp add: fetchStats_def split: sum.splits)

lemma todos_fetchStats [simp]: "todos (fetchStats w s) = todos s"
  by (simp add: fetchStats_def split: sum.splits)

lemma todos_fetchTodos_guest:
  "isGuest s \<Longrightarrow> loadAll (guest_todos s) = Inr xs \<Longrightarrow>
   todos (fetchTodos w s) = filterAndSortTodos (query s) (now_fetch w) xs"
  by (simp add: fetchTodos_def)

text \<open>One toggle of a visible task in a guest session whose projection shows stored tasks.\<close>

lemma toggleTodo_guest_step:
  assumes guest: "isGuest s"
    and store: "loadAll (guest_todos s) = Inr xs"
    and ids: "distinct (map todo_id xs)"
    and sync: "set (todos s) \<subseteq> set xs"
    and vis: "t \<in> set (todos s)"
    and quota: "\<not> quota_exceeded w"
  shows "\<exists>ys. fst (toggleTodo w (todo_id t) s) = Inr () \<and>
           isGuest (snd (toggleTodo w (todo_id t) s)) \<and>
           guest_todos (snd (toggleTodo w (todo_id t) s)) = Stored ys \<and>
           distinct (map todo_id ys) \<and>
           todos (snd (toggleTodo w (todo_id t) s))
             = filterAndSortTodos (query s) (now_fetch w) ys \<and>
           find (\<lambda>x. todo_id x = todo_id t) ys
             = Some (t\<lparr>completed := \<not> completed t, updated_at := now_stamp w\<rparr>)"
proof -
  let ?i = "todo_id t"
  let ?t' = "t\<lparr>completed := \<not> completed t, updated_at := now_stamp w\<rparr>"
  have tin: "t \<in> set xs" using sync vis by blast
  obtain t0 where f0: "find (\<lambda>x. todo_id x = ?i) (todos s) = Some t0"
    using vis by (cases "find (\<lambda>x. todo_id x = ?i) (todos s)") (auto simp: find_None_iff)
  then have "t0 \<in> set (todos s) \<and> todo_id t0 = ?i" by (rule find_Some_ids)
  then have t0: "t0 = t" using same_key_same_elem [OF ids _ tin, of t0] sync by blast
  obtain k where k: "k < length xs" and xk: "xs ! k = t"
    using tin by (auto simp: in_set_conv_nth)
  have fi: "findIndex (\<lambda>x. todo_id x = ?i) xs = Some k"
    using findIndex_first [OF ids k] xk by simp
  let ?ys = "xs[k := ?t']"
  let ?s1 = "s\<lparr>guest_todos := Stored ?ys\<rparr>"
  have upd: "updateTodo w ?i (no_updates\<lparr>p_completed := Some (\<not> completed t)\<rparr>) s
               = (Inr ?t', fetchStats w (fetchTodos w ?s1))"
    using guest store fi xk quota
    by (simp add: updateTodo_def setItem_def spread_completed Let_def)
  have tog: "toggleTodo w ?i s = (Inr (), fetchStats w (fetchTodos w ?s1))"
    using f0 t0 upd by (simp add: toggleTodo_def)
  have mids: "map todo_id ?ys = map todo_id xs"
    using k xk by (simp add: map_update list_update_same_conv)
  then have dys: "distinct (map todo_id ?ys)" using ids by simp
  have "?t' \<in> set ?ys" using k by (simp add: set_update_memI)
  then have "find (\<lambda>x. todo_id x = todo_id ?t') ?ys = Some ?t'"
    using dys by (rule find_by_key [rotated])
  then have fnd: "find (\<lambda>x. todo_id x = ?i) ?ys = Some ?t'" by simp
  have "todos (fetchTodos w ?s1) = filterAndSortTodos (query ?s1) (now_fetch w) ?ys"
    using guest by (intro todos_fetchTodos_guest) (simp_all add: loadAll_def)
  then have sub: "todos (fetchStats w (fetchTodos w ?s1))
                    = filterAndSortTodos (query s) (now_fetch w) ?ys"
    by simp
  from tog guest dys sub fnd show ?thesis by simp
qed


lemma toggleTodo_stays_visible:
  assumes guest: "isGuest s"
    and store: "loadAll (guest_todos s) = Inr xs"
    and ids: "distinct (map todo_id xs)"
    and sync: "set (todos s) \<subseteq> set xs"
    and vis: "t \<in> set (todos s)"
    and quota: "\<not> quota_exceeded w"
    and unfiltered: "status_filter (query s) = All_tasks" "searchQuery (query s) = []"
  shows "todo_id t \<in> todo_id ` set (todos (snd (toggleTodo w (todo_id t) s)))"
proof -
  from toggleTodo_guest_step [OF guest store ids sync vis quota]
  obtain ys where v: "todos (snd (toggleTodo w (todo_id t) s))
                        = filterAndSortTodos (query s) (now_fetch w) ys"
    and f: "find (\<lambda>x. todo_id x = todo_id t) ys
              = Some (t\<lparr>completed := \<not> completed t, updated_at := now_stamp w\<rparr>)"
    by blast
  from f have "t\<lparr>completed := \<not> completed t, updated_at := now_stamp w\<rparr> \<in> set ys"
    by (auto dest: find_Some_ids)
  then have "t\<lparr>completed := \<not> completed t, updated_at := now_stamp w\<rparr>
               \<in> set (todos (snd (toggleTodo w (todo_id t) s)))"
    using unfiltered by (simp add: v set_filterAndSortTodos matchesStatus_def)
  then have "todo_id (t\<lparr>completed := \<not> completed t, updated_at := now_stamp w\<rparr>)
               \<in> todo_id ` set (todos (snd (toggleTodo w (todo_id t) s)))"
    by (rule imageI)
  then show ?thesis by simp
qed







end
